theory Spec2Isabelle
  imports Main "HOL-Library.List_Lexorder" "HOL-Library.Char_ord" "HOL-Library.Option_ord"
    "HOL-Library.Sublist"
begin

section \<open>Data model\<close>

text \<open>
  Identifiers (post ids, user ids) travel as strings: they arrive in path segments
  (\<open>req.params\<close>) and in \<open>res.locals.user._id\<close>, and the handlers compare them with
  \<open>===\<close> and \<open>Array.includes\<close>, which on strings is equality of the characters.
\<close>

type_synonym ident = string

text \<open>
  A user document as \<open>toJSON()\<close> gives it: its fields in order, as pairs of a field name
  and a value.
\<close>

type_synonym user_doc = "(string \<times> string) list"

text \<open>The object \<open>{ userboi, comment }\<close> pushed by the comment handler.\<close>

record comment_entry =
  userboi :: user_doc
  comment :: string

text \<open>
  Modelled from the spec: the Post schema (\<open>models/postModel\<close>) is not among the sources.
  The fields are the ones the spec's data model lists and the handlers read and write:
  the document id, \<open>caption\<close>, \<open>image\<close>, \<open>userId\<close>, \<open>likes\<close> (an array of user ids, empty
  on creation), \<open>comments\<close> (an array, empty on creation) and the \<open>createdAt\<close> timestamp
  (milliseconds). The field \<open>image\<close> is written \<open>image'\<close>.
\<close>

record post =
  post_id :: ident
  caption :: string
  image' :: string
  userId :: ident
  likes :: "ident list"
  comments :: "comment_entry list"
  createdAt :: int

text \<open>
  The post collection is the list of its documents in natural (insertion) order; the
  user collection, which no handler of this router writes, is an association list from
  user id to document.
\<close>

type_synonym store = "post list"

type_synonym user_store = "(ident \<times> user_doc) list"

text \<open>
  What a handler throws inside its \<open>try\<close> block: reading a property of the \<open>null\<close> that
  \<open>findById\<close> returns for an absent document. The argument is the property read.
\<close>

datatype exn = NullRead string

text \<open>
  A response: the status code and the JSON body, which is a list of posts, an object
  \<open>{ error: msg }\<close> with a fixed message, or \<open>{ error: error.message }\<close> of a caught
  exception.
\<close>

datatype body = Posts "post list" | ErrorMsg string | Failure exn

record response =
  status :: nat
  payload :: body

fun returned_posts :: "response \<Rightarrow> post list" where
  "returned_posts r = (case payload r of Posts ps \<Rightarrow> ps | _ \<Rightarrow> [])"

section \<open>The store operations the handlers call\<close>

text \<open>
  A stable insertion sort into descending order of a key: \<open>.sort({ field: -1 })\<close>.
  The database leaves the order of documents with equal keys open; the model keeps
  their store order.
\<close>

fun insert_desc :: "('a \<Rightarrow> 'k::linorder) \<Rightarrow> 'a \<Rightarrow> 'a list \<Rightarrow> 'a list" where
  "insert_desc k x [] = [x]"
| "insert_desc k x (y # ys) = (if k y \<le> k x then x # y # ys else y # insert_desc k x ys)"

fun sort_desc :: "('a \<Rightarrow> 'k::linorder) \<Rightarrow> 'a list \<Rightarrow> 'a list" where
  "sort_desc k [] = []"
| "sort_desc k (x # xs) = insert_desc k x (sort_desc k xs)"

text \<open>\<open>Post.find().sort({ createdAt: -1 })\<close>\<close>

definition find_sorted :: "store \<Rightarrow> post list" where
  "find_sorted s = sort_desc createdAt s"

text \<open>\<open>Post.findById(postId)\<close>: the document with that id, or \<open>null\<close>.\<close>

fun findById :: "ident \<Rightarrow> store \<Rightarrow> post option" where
  "findById pid [] = None"
| "findById pid (p # ps) = (if post_id p = pid then Some p else findById pid ps)"

text \<open>\<open>post.updateOne(update)\<close>: the update applied to the document with the post's id.\<close>

fun updateOne :: "ident \<Rightarrow> (post \<Rightarrow> post) \<Rightarrow> store \<Rightarrow> store" where
  "updateOne pid f [] = []"
| "updateOne pid f (p # ps) = (if post_id p = pid then f p # ps else p # updateOne pid f ps)"

text \<open>\<open>Post.findByIdAndDelete(postId)\<close>\<close>

fun findByIdAndDelete :: "ident \<Rightarrow> store \<Rightarrow> store" where
  "findByIdAndDelete pid [] = []"
| "findByIdAndDelete pid (p # ps) = (if post_id p = pid then ps else p # findByIdAndDelete pid ps)"

text \<open>\<open>Post.findByIdAndUpdate(postId, { caption, image })\<close>\<close>

definition findByIdAndUpdate :: "ident \<Rightarrow> string \<Rightarrow> string \<Rightarrow> store \<Rightarrow> store" where
  "findByIdAndUpdate pid c i s = updateOne pid (\<lambda>p. p\<lparr>caption := c, image' := i\<rparr>) s"

text \<open>
  \<open>Post.create({ caption, image, userId })\<close>: the new document gets the id and the
  timestamp the database and the clock supply, and the schema's empty \<open>likes\<close> and
  \<open>comments\<close>; it is added at the end of the collection.
\<close>

definition Post_create :: "ident \<Rightarrow> int \<Rightarrow> string \<Rightarrow> string \<Rightarrow> ident \<Rightarrow> store \<Rightarrow> store" where
  "Post_create newId now c i u s =
     s @ [\<lparr>post_id = newId, caption = c, image' = i, userId = u, likes = [], comments = [],
           createdAt = now\<rparr>]"

text \<open>\<open>omit(user?.toJSON(), "password")\<close>; of an absent user it is the empty object.\<close>

definition omit :: "user_doc option \<Rightarrow> string \<Rightarrow> user_doc" where
  "omit doc key = (case doc of None \<Rightarrow> [] | Some fs \<Rightarrow> filter (\<lambda>kv. fst kv \<noteq> key) fs)"

section \<open>Validation chains\<close>

text \<open>
  A body field is absent (\<open>undefined\<close>) or a string. \<open>exists()\<close> fails on an absent
  field; \<open>isLength\<close> is applied to the field's string form, which is empty for an absent
  field; a chain runs all its validators and records the message of each one that fails.
\<close>

definition field_exists :: "string option \<Rightarrow> bool" where
  "field_exists v = (v \<noteq> None)"

definition toString :: "string option \<Rightarrow> string" where
  "toString v = (case v of None \<Rightarrow> [] | Some s \<Rightarrow> s)"

definition isLength :: "nat \<Rightarrow> nat \<Rightarrow> string \<Rightarrow> bool" where
  "isLength mn mx s = (mn \<le> length s \<and> length s \<le> mx)"

definition caption_chain :: "string option \<Rightarrow> string list" where
  "caption_chain c =
     (if field_exists c then [] else [''Caption in required'']) @
     (if isLength 5 100 (toString c) then []
      else [''Caption must be between 5 and 100 characters''])"

definition image_chain :: "string option \<Rightarrow> string list" where
  "image_chain i = (if field_exists i then [] else [''Image is required''])"

definition comment_chain :: "string option \<Rightarrow> string list" where
  "comment_chain c = (if field_exists c then [] else [''Comment is required''])"

text \<open>\<open>validationResult(req).array()\<close> of the create and update routes.\<close>

definition post_errors :: "string option \<Rightarrow> string option \<Rightarrow> string list" where
  "post_errors c i = caption_chain c @ image_chain i"

section \<open>Handlers\<close>

text \<open>
  A handler takes the caller's identity \<open>res.locals.user._id\<close> (set by the
  authentication middleware), the path parameters, the body fields and the store, and
  returns the response with the store after it. The \<open>catch\<close> block answers 500 with
  the exception's message; every exception here is thrown before the first write.
\<close>

definition try_catch :: "store \<Rightarrow> exn + response \<times> store \<Rightarrow> response \<times> store" where
  "try_catch s r =
     (case r of Inl e \<Rightarrow> (\<lparr>status = 500, payload = Failure e\<rparr>, s) | Inr x \<Rightarrow> x)"

text \<open>\<open>router.get("/")\<close>\<close>

definition get_posts :: "store \<Rightarrow> response" where
  "get_posts s = \<lparr>status = 200, payload = Posts (find_sorted s)\<rparr>"

text \<open>\<open>router.post("/")\<close>; \<open>newId\<close> and \<open>now\<close> are the id and the time of the creation.\<close>

definition create_post ::
  "ident \<Rightarrow> int \<Rightarrow> ident \<Rightarrow> string option \<Rightarrow> string option \<Rightarrow> store \<Rightarrow> response \<times> store" where
  "create_post newId now caller c i s =
     (let errors = post_errors c i in
      if errors \<noteq> [] then (\<lparr>status = 400, payload = ErrorMsg (hd errors)\<rparr>, s)
      else
        (let s' = Post_create newId now (toString c) (toString i) caller s
         in (\<lparr>status = 200, payload = Posts (find_sorted s')\<rparr>, s')))"

text \<open>\<open>router.get("/userposts/:userId")\<close>: \<open>Post.find({ userId: userId })\<close>, no sort.\<close>

definition get_userposts_by_id :: "ident \<Rightarrow> store \<Rightarrow> response" where
  "get_userposts_by_id uid s = \<lparr>status = 200, payload = Posts (filter (\<lambda>p. userId p = uid) s)\<rparr>"

text \<open>\<open>router.put("/like/:postId")\<close>: \<open>$pull\<close> removes every occurrence, \<open>$push\<close> appends.\<close>

definition like_post :: "ident \<Rightarrow> ident \<Rightarrow> store \<Rightarrow> response \<times> store" where
  "like_post postId caller s =
     try_catch s
       (case findById postId s of
          None \<Rightarrow> Inl (NullRead ''likes'')
        | Some p \<Rightarrow>
            if caller \<in> set (likes p) then
              (let s' = updateOne postId (\<lambda>q. q\<lparr>likes := removeAll caller (likes q)\<rparr>) s
               in Inr (\<lparr>status = 200, payload = Posts (find_sorted s')\<rparr>, s'))
            else
              (let s' = updateOne postId (\<lambda>q. q\<lparr>likes := likes q @ [caller]\<rparr>) s
               in Inr (\<lparr>status = 200, payload = Posts (find_sorted s')\<rparr>, s')))"

text \<open>
  \<open>router.get("/trending")\<close>: \<open>.sort({ likes: -1 }).limit(5)\<close>. The sort key is the array
  field itself. The database compares arrays in a descending sort by their largest
  element, and an empty array comes below every other; strings compare
  lexicographically.
\<close>

fun largest :: "ident list \<Rightarrow> ident option" where
  "largest [] = None"
| "largest (x # xs) = (case largest xs of None \<Rightarrow> Some x | Some m \<Rightarrow> Some (max x m))"

definition trending :: "store \<Rightarrow> response" where
  "trending s = \<lparr>status = 200, payload = Posts (take 5 (sort_desc (\<lambda>p. largest (likes p)) s))\<rparr>"

text \<open>\<open>router.delete("/:postId")\<close>\<close>

definition delete_post :: "ident \<Rightarrow> ident \<Rightarrow> store \<Rightarrow> response \<times> store" where
  "delete_post postId caller s =
     try_catch s
       (case findById postId s of
          None \<Rightarrow> Inl (NullRead ''userId'')
        | Some p \<Rightarrow>
            if userId p = caller then
              (let s' = findByIdAndDelete postId s
               in Inr (\<lparr>status = 200, payload = Posts (find_sorted s')\<rparr>, s'))
            else Inr (\<lparr>status = 403, payload = ErrorMsg ''You can't delete other posts''\<rparr>, s))"

text \<open>\<open>router.put("/:postId")\<close>\<close>

definition update_post ::
  "ident \<Rightarrow> ident \<Rightarrow> string option \<Rightarrow> string option \<Rightarrow> store \<Rightarrow> response \<times> store" where
  "update_post postId caller c i s =
     try_catch s
       (let errors = post_errors c i in
        if errors \<noteq> [] then Inr (\<lparr>status = 400, payload = ErrorMsg (hd errors)\<rparr>, s)
        else
          (case findById postId s of
             None \<Rightarrow> Inl (NullRead ''userId'')
           | Some p \<Rightarrow>
               if userId p = caller then
                 (let s' = findByIdAndUpdate postId (toString c) (toString i) s
                  in Inr (\<lparr>status = 200, payload = Posts (find_sorted s')\<rparr>, s'))
               else Inr (\<lparr>status = 403, payload = ErrorMsg ''You can't update other posts''\<rparr>, s)))"

text \<open>\<open>router.post("/:postId/comment")\<close>\<close>

definition comment_post ::
  "user_store \<Rightarrow> ident \<Rightarrow> ident \<Rightarrow> string option \<Rightarrow> store \<Rightarrow> response \<times> store" where
  "comment_post us postId caller c s =
     try_catch s
       (let errors = comment_chain c in
        if errors \<noteq> [] then Inr (\<lparr>status = 400, payload = ErrorMsg (hd errors)\<rparr>, s)
        else
          (case findById postId s of
             None \<Rightarrow> Inl (NullRead ''updateOne'')
           | Some p \<Rightarrow>
               (let entry = \<lparr>userboi = omit (map_of us caller) ''password'', comment = toString c\<rparr>;
                    s' = updateOne postId (\<lambda>q. q\<lparr>comments := comments q @ [entry]\<rparr>) s
                in Inr (\<lparr>status = 200, payload = Posts (find_sorted s')\<rparr>, s'))))"

section \<open>Orderings of a returned list\<close>

text \<open>Newest first: \<open>createdAt\<close> never increases along the list.\<close>

definition newest_first :: "post list \<Rightarrow> bool" where
  "newest_first ps = sorted_wrt (\<lambda>a b. createdAt b \<le> createdAt a) ps"

text \<open>Most liked first: the number of entries of \<open>likes\<close> never increases along the list.\<close>

definition like_count :: "post \<Rightarrow> nat" where
  "like_count p = length (likes p)"

definition most_liked_first :: "post list \<Rightarrow> bool" where
  "most_liked_first ps = sorted_wrt (\<lambda>a b. like_count b \<le> like_count a) ps"

section \<open>Sample data\<close>

text \<open>A small store and user collection on which the theorems below are instantiated.\<close>

definition sample_post :: post where
  "sample_post =
     \<lparr>post_id = ''p1'', caption = ''hello'', image' = ''a.png'', userId = ''alice'',
      likes = [''carol''], comments = [], createdAt = 1\<rparr>"

definition other_post :: post where
  "other_post =
     \<lparr>post_id = ''p2'', caption = ''world'', image' = ''b.png'', userId = ''bob'',
      likes = [], comments = [], createdAt = 2\<rparr>"

definition newer_post :: post where
  "newer_post =
     \<lparr>post_id = ''p3'', caption = ''again'', image' = ''c.png'', userId = ''alice'',
      likes = [], comments = [], createdAt = 3\<rparr>"

definition sample_store :: store where
  "sample_store = [sample_post, other_post]"

definition sample_users :: user_store where
  "sample_users =
     [(''alice'', [(''_id'', ''alice''), (''username'', ''Alice''), (''password'', ''h4sh'')]),
      (''bob'', [(''_id'', ''bob''), (''username'', ''Bob''), (''password'', ''s3cret'')])]"

section \<open>Facts about the store operations\<close>

lemma findById_updateOne:
  assumes "\<And>p. post_id (f p) = post_id p"
  shows "findById qid (updateOne pid f s) =
           (if qid = pid then map_option f (findById pid s) else findById qid s)"
  using assms by (induction s) auto

lemma length_updateOne: "length (updateOne pid f s) = length s"
  by (induction s) auto

lemma ids_updateOne:
  assumes "\<And>p. post_id (f p) = post_id p"
  shows "map post_id (updateOne pid f s) = map post_id s"
  using assms by (induction s) auto

lemma nth_updateOne_other:
  "n < length s \<Longrightarrow> post_id (s ! n) \<noteq> pid \<Longrightarrow> updateOne pid f s ! n = s ! n"
proof (induction s arbitrary: n)
  case Nil
  then show ?case by simp
next
  case (Cons p ps)
  then show ?case by (cases n) auto
qed

lemma findById_absent: "pid \<notin> post_id ` set s \<Longrightarrow> findById pid s = None"
  by (induction s) auto

lemma findById_findByIdAndDelete:
  "distinct (map post_id s) \<Longrightarrow>
   findById qid (findByIdAndDelete pid s) = (if qid = pid then None else findById qid s)"
  by (induction s) (auto simp: findById_absent)

lemma not_in_omit: "key \<notin> fst ` set (omit doc key)"
  by (auto simp: omit_def split: option.splits)

subsection \<open>Descending sort\<close>

lemma set_insert_desc: "set (insert_desc k x xs) = insert x (set xs)"
  by (induction xs) auto

lemma sorted_insert_desc:
  "sorted_wrt (\<lambda>a b. k b \<le> k a) xs \<Longrightarrow> sorted_wrt (\<lambda>a b. k b \<le> k a) (insert_desc k x xs)"
proof (induction xs)
  case Nil
  then show ?case by simp
next
  case (Cons y ys)
  show ?case
  proof (cases "k y \<le> k x")
    case True
    with Cons.prems show ?thesis by (auto intro: order_trans)
  next
    case False
    then have "k x \<le> k y" by simp
    with False Cons show ?thesis by (auto simp: set_insert_desc)
  qed
qed

lemma sorted_sort_desc: "sorted_wrt (\<lambda>a b. k b \<le> k a) (sort_desc k xs)"
  by (induction xs) (auto simp: sorted_insert_desc)

lemma length_insert_desc: "length (insert_desc k x xs) = Suc (length xs)"
  by (induction xs) auto

lemma length_sort_desc: "length (sort_desc k xs) = length xs"
  by (induction xs) (auto simp: length_insert_desc)

lemma set_sort_desc: "set (sort_desc k xs) = set xs"
  by (induction xs) (auto simp: set_insert_desc)

subsection \<open>Validation\<close>

lemma post_errors_valid:
  "post_errors c i = [] \<longleftrightarrow> (\<exists>cap img. c = Some cap \<and> i = Some img \<and> 5 \<le> length cap \<and> length cap \<le> 100)"
  by (cases c; cases i)
     (auto simp: post_errors_def caption_chain_def image_chain_def field_exists_def
                 isLength_def toString_def)

lemma caption_chain_ok:
  "caption_chain (Some cap) = [] \<longleftrightarrow> 5 \<le> length cap \<and> length cap \<le> 100"
  by (simp add: caption_chain_def field_exists_def isLength_def toString_def)

subsection \<open>Listings\<close>

lemma count_list_filter:
  "count_list (filter P xs) x = (if P x then count_list xs x else 0)"
  by (induction xs) auto

lemma newest_first_find_sorted: "newest_first (find_sorted s)"
  by (simp add: newest_first_def find_sorted_def sorted_sort_desc)

lemma trending_at_most_five: "length (returned_posts (trending s)) \<le> 5"
  by (simp add: trending_def)

lemma trending_order:
  "sorted_wrt (\<lambda>a b. largest (likes b) \<le> largest (likes a)) (returned_posts (trending s))"
  by (simp add: trending_def sorted_wrt_take sorted_sort_desc)

section \<open>Toggling a like\<close>

text \<open>
  C1. On an existing post \<open>P\<close>, the like route answers 200 and leaves \<open>P\<close> with the caller
  removed from \<open>likes\<close> if the caller was a member, and added at the end otherwise.
  Toggling twice by the same caller gives back the original set of likes, and after one
  toggle by a caller who was absent the caller occurs in \<open>likes\<close> exactly once.
\<close>

theorem toggle_like:
  assumes "findById pid s = Some P"
  shows "status (fst (like_post pid u s)) = 200 \<and>
         findById pid (snd (like_post pid u s)) =
           Some (P\<lparr>likes := (if u \<in> set (likes P) then removeAll u (likes P) else likes P @ [u])\<rparr>) \<and>
         map_option (\<lambda>p. set (likes p))
             (findById pid (snd (like_post pid u (snd (like_post pid u s))))) =
           Some (set (likes P)) \<and>
         (u \<notin> set (likes P) \<longrightarrow>
            map_option (\<lambda>p. count_list (likes p) u) (findById pid (snd (like_post pid u s))) =
              Some 1)"
proof -
  let ?s1 = "snd (like_post pid u s)"
  let ?P1 = "P\<lparr>likes := (if u \<in> set (likes P) then removeAll u (likes P) else likes P @ [u])\<rparr>"
  have st: "status (fst (like_post pid u s)) = 200"
    using assms by (simp add: like_post_def try_catch_def Let_def)
  have one: "findById pid ?s1 = Some ?P1"
    using assms by (simp add: like_post_def try_catch_def Let_def findById_updateOne)
  have two: "map_option (\<lambda>p. set (likes p)) (findById pid (snd (like_post pid u ?s1))) =
               Some (set (likes P))"
    using one by (auto simp add: like_post_def try_catch_def Let_def findById_updateOne)
  have cnt: "u \<notin> set (likes P) \<longrightarrow>
               map_option (\<lambda>p. count_list (likes p) u) (findById pid ?s1) = Some 1"
    using one by (simp add: count_list_0_iff)
  from st one two cnt show ?thesis by blast
qed

theorem toggle_like_witness:
  "findById ''p1'' sample_store = Some sample_post \<and>
   ''bob'' \<notin> set (likes sample_post) \<and>
   status (fst (like_post ''p1'' ''bob'' sample_store)) = 200 \<and>
   findById ''p1'' (snd (like_post ''p1'' ''bob'' sample_store)) =
     Some (sample_post\<lparr>likes := [''carol'', ''bob'']\<rparr>) \<and>
   map_option (\<lambda>p. set (likes p))
       (findById ''p1'' (snd (like_post ''p1'' ''bob'' (snd (like_post ''p1'' ''bob'' sample_store))))) =
     Some {''carol''} \<and>
   map_option (\<lambda>p. count_list (likes p) ''bob'')
       (findById ''p1'' (snd (like_post ''p1'' ''bob'' sample_store))) = Some 1"
proof -
  have h: "findById ''p1'' sample_store = Some sample_post"
    by (simp add: sample_store_def sample_post_def)
  have a: "''bob'' \<notin> set (likes sample_post)"
    by (simp add: sample_post_def)
  show ?thesis
    using h a toggle_like [OF h, of "''bob''"] by (simp add: sample_post_def)
qed

text \<open>
  C7. A like request naming a post id that is not in the store reads \<open>likes\<close> of
  \<open>null\<close>; the \<open>catch\<close> block answers 500 (never 404) and the store is unchanged.
\<close>

theorem like_missing_post:
  assumes "findById pid s = None"
  shows "like_post pid u s = (\<lparr>status = 500, payload = Failure (NullRead ''likes'')\<rparr>, s) \<and>
         status (fst (like_post pid u s)) \<noteq> 404"
  using assms by (simp add: like_post_def try_catch_def)

theorem like_missing_post_witness:
  "findById ''nope'' sample_store = None \<and>
   like_post ''nope'' ''bob'' sample_store =
     (\<lparr>status = 500, payload = Failure (NullRead ''likes'')\<rparr>, sample_store)"
proof -
  have h: "findById ''nope'' sample_store = None"
    by (simp add: sample_store_def sample_post_def other_post_def)
  from like_missing_post [OF h, of "''bob''"] h show ?thesis by simp
qed

section \<open>Creating a post\<close>

text \<open>
  C3, as stated, fails when the image field is absent: a caption of 5 characters passes
  the caption rules, but the image rule fails, the request is answered 400 and nothing
  is stored.
\<close>

theorem create_without_image_counterexample:
  "create_post ''p1'' 1 ''alice'' (Some ''abcde'') None [] =
     (\<lparr>status = 400, payload = ErrorMsg ''Image is required''\<rparr>, [])"
  by (simp add: create_post_def post_errors_def caption_chain_def image_chain_def
        field_exists_def isLength_def toString_def)

text \<open>
  C3, amended. A create request whose caption has 4 or 101 characters is answered 400
  with the message of the length rule, whatever the image field is, and the store is
  unchanged. The caption rules pass exactly the captions of 5 to 100 characters, both
  ends included; with a caption of 5 or of 100 characters and an image present, the
  answer is 200 and the new post is stored.
\<close>

theorem create_caption_bounds:
  "(length cap = 4 \<or> length cap = 101 \<longrightarrow>
      create_post newId now caller (Some cap) i s =
        (\<lparr>status = 400, payload = ErrorMsg ''Caption must be between 5 and 100 characters''\<rparr>, s)) \<and>
   (caption_chain (Some cap) = [] \<longleftrightarrow> 5 \<le> length cap \<and> length cap \<le> 100) \<and>
   (length cap = 5 \<or> length cap = 100 \<longrightarrow>
      create_post newId now caller (Some cap) (Some img) s =
        (\<lparr>status = 200,
          payload = Posts (find_sorted (s @ [\<lparr>post_id = newId, caption = cap, image' = img,
                      userId = caller, likes = [], comments = [], createdAt = now\<rparr>]))\<rparr>,
         s @ [\<lparr>post_id = newId, caption = cap, image' = img, userId = caller, likes = [],
               comments = [], createdAt = now\<rparr>]))"
proof (intro conjI impI)
  assume "length cap = 4 \<or> length cap = 101"
  then have "caption_chain (Some cap) = [''Caption must be between 5 and 100 characters'']"
    by (auto simp: caption_chain_def field_exists_def isLength_def toString_def)
  then show "create_post newId now caller (Some cap) i s =
        (\<lparr>status = 400, payload = ErrorMsg ''Caption must be between 5 and 100 characters''\<rparr>, s)"
    by (simp add: create_post_def post_errors_def Let_def)
next
  show "caption_chain (Some cap) = [] \<longleftrightarrow> 5 \<le> length cap \<and> length cap \<le> 100"
    by (rule caption_chain_ok)
next
  assume "length cap = 5 \<or> length cap = 100"
  then have "caption_chain (Some cap) = []"
    by (auto simp: caption_chain_ok)
  then show "create_post newId now caller (Some cap) (Some img) s =
        (\<lparr>status = 200,
          payload = Posts (find_sorted (s @ [\<lparr>post_id = newId, caption = cap, image' = img,
                      userId = caller, likes = [], comments = [], createdAt = now\<rparr>]))\<rparr>,
         s @ [\<lparr>post_id = newId, caption = cap, image' = img, userId = caller, likes = [],
               comments = [], createdAt = now\<rparr>])"
    by (simp add: create_post_def post_errors_def image_chain_def field_exists_def Let_def
          Post_create_def toString_def)
qed

theorem create_caption_bounds_witness:
  "length ''abcd'' = 4 \<and>
   create_post ''p3'' 3 ''bob'' (Some ''abcd'') None sample_store =
     (\<lparr>status = 400, payload = ErrorMsg ''Caption must be between 5 and 100 characters''\<rparr>,
      sample_store) \<and>
   length ''abcde'' = 5 \<and>
   status (fst (create_post ''p3'' 3 ''bob'' (Some ''abcde'') (Some ''c.png'') sample_store)) = 200 \<and>
   snd (create_post ''p3'' 3 ''bob'' (Some ''abcde'') (Some ''c.png'') sample_store) =
     sample_store @ [\<lparr>post_id = ''p3'', caption = ''abcde'', image' = ''c.png'', userId = ''bob'',
       likes = [], comments = [], createdAt = 3\<rparr>]"
  using create_caption_bounds [of "''abcd''" "''p3''" 3 "''bob''" None sample_store]
        create_caption_bounds [of "''abcde''" "''p3''" 3 "''bob''" _ sample_store "''c.png''"]
  by simp

section \<open>Deleting and updating a post\<close>

text \<open>
  C2, as stated, fails for the update route: validation runs before the ownership check,
  so a caller who is not the owner and sends a caption of 4 characters is answered 400,
  not 403.
\<close>

theorem owner_only_update_counterexample:
  "status (fst (update_post ''p1'' ''bob'' (Some ''abcd'') (Some ''c.png'')
      [\<lparr>post_id = ''p1'', caption = ''hello'', image' = ''a.png'', userId = ''alice'',
        likes = [], comments = [], createdAt = 1\<rparr>])) \<noteq> 403"
  by (simp add: update_post_def try_catch_def Let_def post_errors_def caption_chain_def
        image_chain_def field_exists_def isLength_def toString_def)

text \<open>
  C2, amended. For a post \<open>P\<close> in a store with unique ids and a body that passes
  validation: a caller other than the owner is answered 403 by the delete and the update
  route and the store is unchanged; for the owner, delete answers 200 and the post is
  gone, and update answers 200 and the post has the new caption and image.
\<close>

theorem owner_only:
  assumes "findById pid s = Some P"
      and "distinct (map post_id s)"
      and "5 \<le> length cap" and "length cap \<le> 100"
  shows "(caller \<noteq> userId P \<longrightarrow>
            delete_post pid caller s =
              (\<lparr>status = 403, payload = ErrorMsg ''You can't delete other posts''\<rparr>, s) \<and>
            update_post pid caller (Some cap) (Some img) s =
              (\<lparr>status = 403, payload = ErrorMsg ''You can't update other posts''\<rparr>, s)) \<and>
         (caller = userId P \<longrightarrow>
            status (fst (delete_post pid caller s)) = 200 \<and>
            findById pid (snd (delete_post pid caller s)) = None \<and>
            status (fst (update_post pid caller (Some cap) (Some img) s)) = 200 \<and>
            findById pid (snd (update_post pid caller (Some cap) (Some img) s)) =
              Some (P\<lparr>caption := cap, image' := img\<rparr>))"
proof -
  have ok: "post_errors (Some cap) (Some img) = []"
    using assms(3,4) by (simp add: post_errors_valid)
  show ?thesis
    using assms(1,2) ok
    by (simp add: delete_post_def update_post_def try_catch_def Let_def toString_def
          findById_findByIdAndDelete findByIdAndUpdate_def findById_updateOne)
qed

theorem owner_only_witness:
  "findById ''p1'' sample_store = Some sample_post \<and> distinct (map post_id sample_store) \<and>
   ''bob'' \<noteq> userId sample_post \<and> ''alice'' = userId sample_post \<and>
   delete_post ''p1'' ''bob'' sample_store =
     (\<lparr>status = 403, payload = ErrorMsg ''You can't delete other posts''\<rparr>, sample_store) \<and>
   update_post ''p1'' ''bob'' (Some ''fresh caption'') (Some ''c.png'') sample_store =
     (\<lparr>status = 403, payload = ErrorMsg ''You can't update other posts''\<rparr>, sample_store) \<and>
   status (fst (delete_post ''p1'' ''alice'' sample_store)) = 200 \<and>
   findById ''p1'' (snd (delete_post ''p1'' ''alice'' sample_store)) = None \<and>
   status (fst (update_post ''p1'' ''alice'' (Some ''fresh caption'') (Some ''c.png'') sample_store)) = 200 \<and>
   findById ''p1'' (snd (update_post ''p1'' ''alice'' (Some ''fresh caption'') (Some ''c.png'') sample_store)) =
     Some (sample_post\<lparr>caption := ''fresh caption'', image' := ''c.png''\<rparr>)"
proof -
  have h: "findById ''p1'' sample_store = Some sample_post"
    by (simp add: sample_store_def sample_post_def)
  have d: "distinct (map post_id sample_store)"
    by (simp add: sample_store_def sample_post_def other_post_def)
  have l: "5 \<le> length ''fresh caption''" "length ''fresh caption'' \<le> 100"
    by simp_all
  have u: "''bob'' \<noteq> userId sample_post" "''alice'' = userId sample_post"
    by (simp_all add: sample_post_def)
  from owner_only [OF h d l, of "''bob''" "''c.png''"]
       owner_only [OF h d l, of "''alice''" "''c.png''"] h d u
  show ?thesis by simp
qed

text \<open>
  C9. When the update route answers 200 for an existing post \<open>P\<close>, the caller is the owner,
  the post is \<open>P\<close> with only \<open>caption\<close> and \<open>image\<close> replaced (\<open>userId\<close>, \<open>likes\<close>, \<open>comments\<close> and
  \<open>createdAt\<close> are as before), and every other post is as before.
\<close>

theorem update_frame:
  assumes "findById pid s = Some P"
      and "status (fst (update_post pid caller c i s)) = 200"
  shows "\<exists>cap img. c = Some cap \<and> i = Some img \<and> caller = userId P \<and>
           findById pid (snd (update_post pid caller c i s)) =
             Some (P\<lparr>caption := cap, image' := img\<rparr>) \<and>
           userId (P\<lparr>caption := cap, image' := img\<rparr>) = userId P \<and>
           likes (P\<lparr>caption := cap, image' := img\<rparr>) = likes P \<and>
           comments (P\<lparr>caption := cap, image' := img\<rparr>) = comments P \<and>
           createdAt (P\<lparr>caption := cap, image' := img\<rparr>) = createdAt P \<and>
           (\<forall>q. q \<noteq> pid \<longrightarrow> findById q (snd (update_post pid caller c i s)) = findById q s)"
proof -
  from assms(2) have ok: "post_errors c i = []"
    by (auto simp: update_post_def try_catch_def Let_def split: if_splits)
  then obtain cap img where ci: "c = Some cap" "i = Some img"
    by (auto simp: post_errors_valid)
  from assms ok have own: "caller = userId P"
    by (auto simp: update_post_def try_catch_def Let_def split: if_splits)
  have s': "snd (update_post pid caller c i s) = findByIdAndUpdate pid cap img s"
    using assms(1) ok own ci by (simp add: update_post_def try_catch_def Let_def toString_def)
  show ?thesis
    using ci own assms(1) unfolding s' findByIdAndUpdate_def
    by (simp add: findById_updateOne)
qed

theorem update_frame_witness:
  "findById ''p1'' sample_store = Some sample_post \<and>
   status (fst (update_post ''p1'' ''alice'' (Some ''fresh caption'') (Some ''c.png'') sample_store)) = 200 \<and>
   findById ''p1'' (snd (update_post ''p1'' ''alice'' (Some ''fresh caption'') (Some ''c.png'') sample_store)) =
     Some \<lparr>post_id = ''p1'', caption = ''fresh caption'', image' = ''c.png'', userId = ''alice'',
           likes = [''carol''], comments = [], createdAt = 1\<rparr> \<and>
   findById ''p2'' (snd (update_post ''p1'' ''alice'' (Some ''fresh caption'') (Some ''c.png'') sample_store)) =
     findById ''p2'' sample_store"
proof -
  have h: "findById ''p1'' sample_store = Some sample_post"
    by (simp add: sample_store_def sample_post_def)
  have st: "status (fst (update_post ''p1'' ''alice'' (Some ''fresh caption'') (Some ''c.png'') sample_store)) = 200"
    by (simp add: update_post_def try_catch_def Let_def post_errors_def caption_chain_def
          image_chain_def field_exists_def isLength_def toString_def sample_store_def
          sample_post_def)
  from update_frame [OF h st] h st show ?thesis
    by (auto simp: sample_post_def)
qed

text \<open>
  C10. An update request whose body fails validation (caption absent, shorter than 5 or
  longer than 100 characters, or image absent) is answered 400 with the first error's
  message, whoever the caller is and whether or not the post exists: never 403.
\<close>

theorem update_validation_first:
  assumes "c = None \<or> length (toString c) < 5 \<or> 100 < length (toString c) \<or> i = None"
  shows "update_post pid caller c i s =
           (\<lparr>status = 400, payload = ErrorMsg (hd (post_errors c i))\<rparr>, s) \<and>
         post_errors c i \<noteq> [] \<and>
         status (fst (update_post pid caller c i s)) \<noteq> 403"
proof -
  have "post_errors c i \<noteq> []"
    using assms by (auto simp: post_errors_valid toString_def)
  then show ?thesis
    by (simp add: update_post_def try_catch_def Let_def)
qed

theorem update_validation_first_witness:
  "findById ''p1'' sample_store = Some sample_post \<and> userId sample_post \<noteq> ''bob'' \<and>
   length (toString (Some ''abcd'')) < 5 \<and>
   update_post ''p1'' ''bob'' (Some ''abcd'') (Some ''c.png'') sample_store =
     (\<lparr>status = 400, payload = ErrorMsg ''Caption must be between 5 and 100 characters''\<rparr>,
      sample_store)"
  using update_validation_first [of "Some ''abcd''" "Some ''c.png''" "''p1''" "''bob''" sample_store]
  by (simp add: sample_store_def sample_post_def toString_def post_errors_def caption_chain_def
        image_chain_def field_exists_def isLength_def)

section \<open>Listings\<close>

text \<open>
  C4, as stated, fails for \<open>GET /userposts/:userId\<close>, which applies no sort: after two
  posts created by the same user at times 1 and 2, the route returns the older one first.
\<close>

theorem userposts_unsorted_counterexample:
  "\<not> newest_first (returned_posts (get_userposts_by_id ''alice''
       (snd (create_post ''p2'' 2 ''alice'' (Some ''second post'') (Some ''b.png'')
          (snd (create_post ''p1'' 1 ''alice'' (Some ''first post'') (Some ''a.png'') []))))))"
  by (simp add: newest_first_def get_userposts_by_id_def create_post_def post_errors_def
        caption_chain_def image_chain_def field_exists_def isLength_def toString_def Let_def
        Post_create_def)

text \<open>
  C4, amended. \<open>GET /\<close> returns the posts newest first. \<open>GET /userposts/:userId\<close> applies
  no sort: its list holds exactly the posts of that user, each as often as the store
  does, in the same relative order as the store; so it is newest first whenever the
  store's own order is newest first.
\<close>

theorem listing_order:
  "newest_first (returned_posts (get_posts s)) \<and>
   subseq (returned_posts (get_userposts_by_id uid s)) s \<and>
   (\<forall>p. count_list (returned_posts (get_userposts_by_id uid s)) p =
          (if userId p = uid then count_list s p else 0)) \<and>
   (newest_first s \<longrightarrow> newest_first (returned_posts (get_userposts_by_id uid s)))"
proof (intro conjI impI allI)
  show "newest_first (returned_posts (get_posts s))"
    by (simp add: get_posts_def newest_first_find_sorted)
  show "subseq (returned_posts (get_userposts_by_id uid s)) s"
    by (simp add: get_userposts_by_id_def)
  show "count_list (returned_posts (get_userposts_by_id uid s)) p =
          (if userId p = uid then count_list s p else 0)" for p
    by (simp add: get_userposts_by_id_def count_list_filter)
  assume "newest_first s"
  then show "newest_first (returned_posts (get_userposts_by_id uid s))"
    by (simp add: get_userposts_by_id_def newest_first_def sorted_wrt_filter)
qed

theorem listing_order_witness:
  "newest_first [newer_post, other_post, sample_post] \<and>
   newest_first (returned_posts (get_posts [newer_post, other_post, sample_post])) \<and>
   returned_posts (get_userposts_by_id ''alice'' [newer_post, other_post, sample_post]) =
     [newer_post, sample_post] \<and>
   subseq [newer_post, sample_post] [newer_post, other_post, sample_post] \<and>
   count_list (returned_posts (get_userposts_by_id ''alice'' [newer_post, other_post, sample_post]))
     sample_post = 1 \<and>
   count_list (returned_posts (get_userposts_by_id ''alice'' [newer_post, other_post, sample_post]))
     other_post = 0 \<and>
   newest_first (returned_posts (get_userposts_by_id ''alice'' [newer_post, other_post, sample_post]))"
proof -
  have h: "newest_first [newer_post, other_post, sample_post]"
    by (simp add: newest_first_def newer_post_def other_post_def sample_post_def)
  have r: "returned_posts (get_userposts_by_id ''alice'' [newer_post, other_post, sample_post]) =
             [newer_post, sample_post]"
    by (simp add: get_userposts_by_id_def newer_post_def other_post_def sample_post_def)
  have c: "count_list [newer_post, other_post, sample_post] sample_post = 1"
    by (simp add: newer_post_def other_post_def sample_post_def)
  have u: "userId sample_post = ''alice''" "userId other_post \<noteq> ''alice''"
    by (simp_all add: sample_post_def other_post_def)
  from listing_order [of "[newer_post, other_post, sample_post]" "''alice''"] h r c u
  show ?thesis by (metis One_nat_def)
qed

text \<open>
  C5. \<open>GET /trending\<close> returns at most 5 posts (\<open>trending_at_most_five\<close>), in
  descending order of the largest entry of \<open>likes\<close> (\<open>trending_order\<close>), not of the number
  of entries: a post liked by \<open>a\<close> and \<open>b\<close> comes after a post liked by \<open>z\<close> alone.
\<close>

theorem trending_failing_input:
  "returned_posts (trending
     [\<lparr>post_id = ''p1'', caption = ''hello'', image' = ''a.png'', userId = ''alice'',
       likes = [''a'', ''b''], comments = [], createdAt = 1\<rparr>,
      \<lparr>post_id = ''p2'', caption = ''world'', image' = ''b.png'', userId = ''alice'',
       likes = [''z''], comments = [], createdAt = 2\<rparr>]) =
     [\<lparr>post_id = ''p2'', caption = ''world'', image' = ''b.png'', userId = ''alice'',
       likes = [''z''], comments = [], createdAt = 2\<rparr>,
      \<lparr>post_id = ''p1'', caption = ''hello'', image' = ''a.png'', userId = ''alice'',
       likes = [''a'', ''b''], comments = [], createdAt = 1\<rparr>] \<and>
   \<not> most_liked_first (returned_posts (trending
     [\<lparr>post_id = ''p1'', caption = ''hello'', image' = ''a.png'', userId = ''alice'',
       likes = [''a'', ''b''], comments = [], createdAt = 1\<rparr>,
      \<lparr>post_id = ''p2'', caption = ''world'', image' = ''b.png'', userId = ''alice'',
       likes = [''z''], comments = [], createdAt = 2\<rparr>]))"
  by (simp add: trending_def most_liked_first_def like_count_def)

section \<open>Commenting\<close>

text \<open>
  C6. A comment with a text on an existing post \<open>P\<close> is answered 200; \<open>P\<close> gets exactly one
  new entry at the end of \<open>comments\<close>, holding the text and the commenter's document
  without its \<open>password\<close> field; every other post, and the ids and number of posts, are
  unchanged.
\<close>

theorem comment_appends:
  assumes "findById pid s = Some P"
  shows "status (fst (comment_post us pid u (Some text) s)) = 200 \<and>
         findById pid (snd (comment_post us pid u (Some text) s)) =
           Some (P\<lparr>comments := comments P @
                   [\<lparr>userboi = omit (map_of us u) ''password'', comment = text\<rparr>]\<rparr>) \<and>
         ''password'' \<notin> fst ` set (omit (map_of us u) ''password'') \<and>
         (\<forall>doc. map_of us u = Some doc \<longrightarrow>
            omit (map_of us u) ''password'' = filter (\<lambda>kv. fst kv \<noteq> ''password'') doc) \<and>
         (\<forall>q. q \<noteq> pid \<longrightarrow> findById q (snd (comment_post us pid u (Some text) s)) = findById q s) \<and>
         (\<forall>n < length s. post_id (s ! n) \<noteq> pid \<longrightarrow>
            snd (comment_post us pid u (Some text) s) ! n = s ! n) \<and>
         map post_id (snd (comment_post us pid u (Some text) s)) = map post_id s"
proof -
  let ?e = "\<lparr>userboi = omit (map_of us u) ''password'', comment = text\<rparr>"
  have s': "comment_post us pid u (Some text) s =
              (\<lparr>status = 200,
                payload = Posts (find_sorted
                  (updateOne pid (\<lambda>q. q\<lparr>comments := comments q @ [?e]\<rparr>) s))\<rparr>,
               updateOne pid (\<lambda>q. q\<lparr>comments := comments q @ [?e]\<rparr>) s)"
    using assms
    by (simp add: comment_post_def comment_chain_def field_exists_def try_catch_def Let_def
          toString_def)
  have snap: "\<forall>doc. map_of us u = Some doc \<longrightarrow>
            omit (map_of us u) ''password'' = filter (\<lambda>kv. fst kv \<noteq> ''password'') doc"
    by (simp add: omit_def)
  show ?thesis
    unfolding s' using assms snap
    by (simp add: findById_updateOne ids_updateOne not_in_omit nth_updateOne_other)
qed

theorem comment_appends_witness:
  "findById ''p1'' sample_store = Some sample_post \<and>
   map_of sample_users ''bob'' =
     Some [(''_id'', ''bob''), (''username'', ''Bob''), (''password'', ''s3cret'')] \<and>
   status (fst (comment_post sample_users ''p1'' ''bob'' (Some ''nice'') sample_store)) = 200 \<and>
   findById ''p1'' (snd (comment_post sample_users ''p1'' ''bob'' (Some ''nice'') sample_store)) =
     Some (sample_post\<lparr>comments :=
       [\<lparr>userboi = [(''_id'', ''bob''), (''username'', ''Bob'')], comment = ''nice''\<rparr>]\<rparr>) \<and>
   findById ''p2'' (snd (comment_post sample_users ''p1'' ''bob'' (Some ''nice'') sample_store)) =
     findById ''p2'' sample_store"
proof -
  have h: "findById ''p1'' sample_store = Some sample_post"
    by (simp add: sample_store_def sample_post_def)
  have d: "map_of sample_users ''bob'' =
     Some [(''_id'', ''bob''), (''username'', ''Bob''), (''password'', ''s3cret'')]"
    by (simp add: sample_users_def)
  from comment_appends [OF h, of sample_users "''bob''" "''nice''"] h d
  show ?thesis by (simp add: sample_post_def)
qed

text \<open>
  C8, as stated, fails for the empty string: the chain checks presence only, so an empty
  comment is answered 200 and appended.
\<close>

theorem empty_comment_counterexample:
  "status (fst (comment_post [] ''p1'' ''bob'' (Some [])
      [\<lparr>post_id = ''p1'', caption = ''hello'', image' = ''a.png'', userId = ''alice'',
        likes = [], comments = [], createdAt = 1\<rparr>])) = 200 \<and>
   snd (comment_post [] ''p1'' ''bob'' (Some [])
      [\<lparr>post_id = ''p1'', caption = ''hello'', image' = ''a.png'', userId = ''alice'',
        likes = [], comments = [], createdAt = 1\<rparr>]) =
      [\<lparr>post_id = ''p1'', caption = ''hello'', image' = ''a.png'', userId = ''alice'',
        likes = [], comments = [\<lparr>userboi = [], comment = []\<rparr>], createdAt = 1\<rparr>]"
  by (simp add: comment_post_def comment_chain_def field_exists_def try_catch_def Let_def
        toString_def omit_def)

text \<open>
  C8, amended. A comment request without a \<open>comment\<close> field is answered 400 with
  "Comment is required" and the store is unchanged. Every present text, the empty
  string included, passes validation; on an existing post the empty comment is appended.
\<close>

theorem comment_presence_check:
  "comment_post us pid u None s =
     (\<lparr>status = 400, payload = ErrorMsg ''Comment is required''\<rparr>, s) \<and>
   comment_chain (Some text) = [] \<and>
   (findById pid s = Some P \<longrightarrow>
      status (fst (comment_post us pid u (Some []) s)) = 200 \<and>
      findById pid (snd (comment_post us pid u (Some []) s)) =
        Some (P\<lparr>comments := comments P @
                [\<lparr>userboi = omit (map_of us u) ''password'', comment = []\<rparr>]\<rparr>))"
  by (simp add: comment_post_def comment_chain_def field_exists_def try_catch_def Let_def
        toString_def findById_updateOne)

theorem comment_presence_check_witness:
  "findById ''p1'' sample_store = Some sample_post \<and>
   comment_post sample_users ''p1'' ''bob'' None sample_store =
     (\<lparr>status = 400, payload = ErrorMsg ''Comment is required''\<rparr>, sample_store) \<and>
   status (fst (comment_post sample_users ''p1'' ''bob'' (Some []) sample_store)) = 200 \<and>
   findById ''p1'' (snd (comment_post sample_users ''p1'' ''bob'' (Some []) sample_store)) =
     Some (sample_post\<lparr>comments :=
       [\<lparr>userboi = [(''_id'', ''bob''), (''username'', ''Bob'')], comment = []\<rparr>]\<rparr>)"
proof -
  have h: "findById ''p1'' sample_store = Some sample_post"
    by (simp add: sample_store_def sample_post_def)
  from comment_presence_check [of sample_users "''p1''" "''bob''" sample_store "[]" sample_post] h
  show ?thesis by (simp add: sample_post_def sample_users_def omit_def)
qed

end
